theory Spec2Isabelle
  imports Main "HOL-Library.Multiset"
begin

section \<open>Ticket entity and wire values\<close>

text \<open>
  A timestamp is the instant it denotes, in milliseconds since the epoch. The gateway
  carries it as an ISO-8601 string and the hook as a \<^verbatim>\<open>Date\<close>; \<^verbatim>\<open>new Date(s)\<close> and
  \<^verbatim>\<open>toISOString()\<close> change the carrier and keep the instant, so both are the identity
  on instants. Every timestamp is a valid date (no \<^verbatim>\<open>Invalid Date\<close>).
\<close>

type_synonym instant = int

definition newDate :: "instant \<Rightarrow> instant" where
  "newDate v = v"

definition toISOString :: "instant \<Rightarrow> instant" where
  "toISOString d = d"

definition getTime :: "instant \<Rightarrow> int" where
  "getTime d = d"

text \<open>
  The fields of a ticket, as the hook and the page read them. An optional field that is
  \<^verbatim>\<open>undefined\<close> or \<^verbatim>\<open>null\<close> is \<open>None\<close>. The same record serves for the gateway's
  raw record and for the transformed one.
\<close>

record ticket =
  id' :: string
  title :: string
  description :: string
  location :: string
  priority :: string
  status :: string
  createdBy :: string
  assignedTo :: "string option"
  createdAt :: instant
  updatedAt :: instant
  assignedAt :: "instant option"
  resolvedAt :: "instant option"
  verifiedAt :: "instant option"
  verifiedBy :: "string option"
  dueDate :: "instant option"

text \<open>
  Modelled from the spec: the class \<^verbatim>\<open>Ticket\<close> of \<^verbatim>\<open>models/Ticket\<close> is not among the
  sources. Section 3 of the specification gives the entity as the record of its
  attributes, so the constructor keeps the fields it is handed.
\<close>

definition Ticket :: "ticket \<Rightarrow> ticket" where
  "Ticket props = props"

text \<open>
  A property of a \<^verbatim>\<open>Partial<Ticket>\<close> object literal: the key is absent, or present
  with \<^verbatim>\<open>undefined\<close>, with \<^verbatim>\<open>null\<close> or with a value. What the hook does with a
  property it reads (\<open>get\<close>: the tests for truth and the comparisons with a string) does
  not tell the first three apart.
\<close>

datatype 'a property = Absent | Undefined | Null | Value 'a

fun get :: "'a property \<Rightarrow> 'a option" where
  "get Absent = None"
| "get Undefined = None"
| "get Null = None"
| "get (Value v) = Some v"

text \<open>JavaScript truthiness: a \<^verbatim>\<open>Date\<close> object is always truthy, a string unless empty.\<close>

fun truthyDate :: "instant option \<Rightarrow> bool" where
  "truthyDate None = False"
| "truthyDate (Some d) = True"

fun truthyString :: "string option \<Rightarrow> bool" where
  "truthyString None = False"
| "truthyString (Some s) = (s \<noteq> [])"

text \<open>
  \<^verbatim>\<open>Partial<Ticket>\<close>, with the properties the callers of the hook set (the identity,
  the creator and the creation and update times are left to the gateway).
\<close>

record partialTicket =
  title_p :: "string property"
  description_p :: "string property"
  location_p :: "string property"
  priority_p :: "string property"
  status_p :: "string property"
  assignedTo_p :: "string property"
  assignedAt_p :: "instant property"
  resolvedAt_p :: "instant property"
  verifiedAt_p :: "instant property"
  verifiedBy_p :: "string property"
  dueDate_p :: "instant property"

text \<open>A thrown value: an \<^verbatim>\<open>Error\<close> or a \<^verbatim>\<open>TypeError\<close>, each with its message.\<close>

datatype exn = Error (message: string) | TypeError (message: string)

text \<open>
  What a call of the data-access collaborator \<^verbatim>\<open>db\<close> comes to: the promise rejects, or
  it resolves to an object \<^verbatim>\<open>{ data, error }\<close>, either of which may be missing.
\<close>

datatype 'a response = Rejected exn | Resolved "'a option" "exn option"

text \<open>\<^verbatim>\<open>db.getTicketsWithRelations\<close> resolves to the array itself.\<close>

datatype fetched = FetchRejected exn | Fetched "ticket list"

section \<open>The hook \<^verbatim>\<open>useTickets\<close>\<close>

text \<open>
  The state of the hook (\<open>tickets\<close>, \<open>loading\<close>, \<open>error\<close>) together with the two
  effects the operations have besides it: the notices raised with \<^verbatim>\<open>toast\<close> (by title)
  and the lines written to the console.
\<close>

record store =
  tickets :: "ticket list"
  loading :: bool
  error :: "string option"
  toasts :: "string list"
  console :: "string list"

definition toast :: "string \<Rightarrow> store \<Rightarrow> store" where
  "toast t s = s\<lparr>toasts := toasts s @ [t]\<rparr>"

definition consoleLog :: "string \<Rightarrow> store \<Rightarrow> store" where
  "consoleLog l s = s\<lparr>console := console s @ [l]\<rparr>"

definition setTickets :: "(ticket list \<Rightarrow> ticket list) \<Rightarrow> store \<Rightarrow> store" where
  "setTickets f s = s\<lparr>tickets := f (tickets s)\<rparr>"

definition setLoading :: "bool \<Rightarrow> store \<Rightarrow> store" where
  "setLoading b s = s\<lparr>loading := b\<rparr>"

definition setError :: "string option \<Rightarrow> store \<Rightarrow> store" where
  "setError e s = s\<lparr>error := e\<rparr>"

text \<open>
  Reading a property of \<^verbatim>\<open>undefined\<close> throws a \<^verbatim>\<open>TypeError\<close>; the message names the
  property.
\<close>

definition undefinedRead :: "string \<Rightarrow> exn" where
  "undefinedRead p = TypeError (''Cannot read properties of undefined (reading '' @ p @ '')'')"

subsection \<open>\<^verbatim>\<open>loadTickets\<close>\<close>

definition transformLoaded :: "ticket \<Rightarrow> ticket" where
  "transformLoaded t =
     t\<lparr>createdAt := newDate (createdAt t),
       updatedAt := newDate (updatedAt t),
       assignedAt := (case assignedAt t of None \<Rightarrow> None | Some v \<Rightarrow> Some (newDate v)),
       resolvedAt := (case resolvedAt t of None \<Rightarrow> None | Some v \<Rightarrow> Some (newDate v)),
       verifiedAt := (case verifiedAt t of None \<Rightarrow> None | Some v \<Rightarrow> Some (newDate v)),
       dueDate := (case dueDate t of None \<Rightarrow> None | Some v \<Rightarrow> Some (newDate v))\<rparr>"

text \<open>
  The inner \<^verbatim>\<open>try\<close> logs a rejected fetch and goes on with \<^verbatim>\<open>data\<close> unassigned, so
  \<^verbatim>\<open>data.map\<close> throws into the outer \<^verbatim>\<open>catch\<close>; \<^verbatim>\<open>finally\<close> clears \<open>loading\<close> on
  every path. The promise the function returns always fulfils.
\<close>

definition loadTickets ::
  "string option \<Rightarrow> string option \<Rightarrow> (string \<Rightarrow> string \<Rightarrow> fetched) \<Rightarrow> store \<Rightarrow> (exn + unit) \<times> store"
where
  "loadTickets user profile db_getTicketsWithRelations s =
     (case (user, profile) of
        (Some uid, Some role) \<Rightarrow>
          (let s1 = setError None (setLoading True s) in
           (case db_getTicketsWithRelations uid role of
              FetchRejected e \<Rightarrow>
                (let s2 = consoleLog (message e) s1;
                     err = undefinedRead ''map'';
                     s3 = consoleLog ''Error loading tickets:'' s2;
                     s4 = setError (Some (message err)) s3;
                     s5 = toast ''Error loading tickets'' s4
                 in (Inr (), setLoading False s5))
            | Fetched data \<Rightarrow>
                (let s2 = setTickets (\<lambda>_. map transformLoaded data) s1
                 in (Inr (), setLoading False s2))))
      | _ \<Rightarrow> (Inr (), s))"

subsection \<open>\<^verbatim>\<open>createTicket\<close>\<close>

definition transformCreated :: "ticket \<Rightarrow> ticket" where
  "transformCreated data =
     Ticket (data\<lparr>createdAt := newDate (createdAt data),
       updatedAt := newDate (updatedAt data),
       assignedAt := (case assignedAt data of None \<Rightarrow> None | Some v \<Rightarrow> Some (newDate v)),
       resolvedAt := (case resolvedAt data of None \<Rightarrow> None | Some v \<Rightarrow> Some (newDate v)),
       dueDate := (case dueDate data of None \<Rightarrow> None | Some v \<Rightarrow> Some (newDate v))\<rparr>)"

text \<open>
  The inner \<^verbatim>\<open>try\<close> of \<^verbatim>\<open>createTicket\<close>: the gateway call, the check of \<open>error\<close> and
  the transformation, whose exceptions the inner \<^verbatim>\<open>catch\<close> throws again.
\<close>

definition createdOrThrown :: "ticket response \<Rightarrow> exn + ticket" where
  "createdOrThrown r =
     (case r of
        Rejected e \<Rightarrow> Inl e
      | Resolved data err \<Rightarrow>
          (case err of
             Some e \<Rightarrow> Inl e
           | None \<Rightarrow>
               (case data of
                  None \<Rightarrow> Inl (undefinedRead ''createdAt'')
                | Some d \<Rightarrow> Inr (transformCreated d))))"

definition createTicket ::
  "string option \<Rightarrow> partialTicket \<Rightarrow> (string \<Rightarrow> partialTicket \<Rightarrow> ticket response) \<Rightarrow>
   (ticket \<Rightarrow> exn option) \<Rightarrow> store \<Rightarrow> (exn + ticket) \<times> store"
where
  "createTicket user ticketData db_createTicket notifyTicketCreated s =
     (case user of
        None \<Rightarrow> (Inl (Error ''User not authenticated''), s)
      | Some uid \<Rightarrow>
          (case createdOrThrown (db_createTicket uid ticketData) of
             Inl e \<Rightarrow>
               (Inl e, toast ''Failed to create ticket'' (consoleLog ''Error creating ticket:'' s))
           | Inr transformedTicket \<Rightarrow>
               (let s1 = setTickets (\<lambda>prev. transformedTicket # prev) s;
                    s2 = (case notifyTicketCreated transformedTicket of
                            Some notificationError \<Rightarrow>
                              consoleLog ''Failed to send ticket creation notifications:'' s1
                          | None \<Rightarrow> s1)
                in (Inr transformedTicket, toast ''Ticket created'' s2))))"

subsection \<open>\<^verbatim>\<open>updateTicket\<close>\<close>

text \<open>
  The fields \<^verbatim>\<open>updateTicket\<close> hands to the gateway: a copy of \<open>updates\<close> with the dates
  given turned to wire format, then the stamps for the status asked for. \<open>now\<close> is the
  clock at the call (\<^verbatim>\<open>new Date()\<close>), \<open>uid\<close> the acting user.
\<close>

definition dbUpdates :: "string \<Rightarrow> instant \<Rightarrow> partialTicket \<Rightarrow> partialTicket" where
  "dbUpdates uid now updates =
     (let u0 = updates;
          u1 = (case get (dueDate_p u0) of
                  Some d \<Rightarrow> u0\<lparr>dueDate_p := Value (toISOString d)\<rparr> | None \<Rightarrow> u0);
          u2 = (case get (assignedAt_p u1) of
                  Some d \<Rightarrow> u1\<lparr>assignedAt_p := Value (toISOString d)\<rparr> | None \<Rightarrow> u1);
          u3 = (case get (resolvedAt_p u2) of
                  Some d \<Rightarrow> u2\<lparr>resolvedAt_p := Value (toISOString d)\<rparr> | None \<Rightarrow> u2);
          u4 = (case get (verifiedAt_p u3) of
                  Some d \<Rightarrow> u3\<lparr>verifiedAt_p := Value (toISOString d)\<rparr> | None \<Rightarrow> u3);
          u5 = (if get (status_p updates) = Some ''assigned'' \<and> \<not> truthyDate (get (assignedAt_p updates))
                then u4\<lparr>assignedAt_p := Value (toISOString now)\<rparr> else u4);
          u6 = (if get (status_p updates) = Some ''resolved'' \<and> \<not> truthyDate (get (resolvedAt_p updates))
                then u5\<lparr>resolvedAt_p := Value (toISOString now)\<rparr> else u5);
          u7 = (if get (status_p updates) = Some ''verified'' \<and> \<not> truthyDate (get (verifiedAt_p updates))
                then u6\<lparr>verifiedAt_p := Value (toISOString now), verifiedBy_p := Value uid\<rparr> else u6)
      in u7)"

definition transformUpdated :: "ticket \<Rightarrow> ticket" where
  "transformUpdated ticketData =
     Ticket (ticketData\<lparr>createdAt := newDate (createdAt ticketData),
       updatedAt := newDate (updatedAt ticketData),
       assignedAt := (case assignedAt ticketData of None \<Rightarrow> None | Some v \<Rightarrow> Some (newDate v)),
       resolvedAt := (case resolvedAt ticketData of None \<Rightarrow> None | Some v \<Rightarrow> Some (newDate v)),
       verifiedAt := (case verifiedAt ticketData of None \<Rightarrow> None | Some v \<Rightarrow> Some (newDate v)),
       dueDate := (case dueDate ticketData of None \<Rightarrow> None | Some v \<Rightarrow> Some (newDate v))\<rparr>)"

text \<open>
  The gateway call of \<^verbatim>\<open>updateTicket\<close> with its inner \<^verbatim>\<open>try\<close>, which throws again
  what it catches, and the transformation of the record that came back.
\<close>

definition updatedOrThrown :: "ticket response \<Rightarrow> exn + ticket" where
  "updatedOrThrown r =
     (case r of
        Rejected e \<Rightarrow> Inl e
      | Resolved data err \<Rightarrow>
          (case err of
             Some e \<Rightarrow> Inl e
           | None \<Rightarrow>
               (case data of
                  None \<Rightarrow> Inl (undefinedRead ''createdAt'')
                | Some ticketData \<Rightarrow> Inr (transformUpdated ticketData))))"

text \<open>
  The notifications after an update, in one \<^verbatim>\<open>try\<close>: when the first call fails the
  second is not made, and the \<^verbatim>\<open>catch\<close> writes one warning. The result tells whether a
  call failed.
\<close>

definition updateNotifications ::
  "string \<Rightarrow> partialTicket \<Rightarrow> ticket \<Rightarrow> (ticket \<Rightarrow> string \<Rightarrow> exn option) \<Rightarrow>
   (ticket \<Rightarrow> string \<Rightarrow> string \<Rightarrow> exn option) \<Rightarrow> exn option"
where
  "updateNotifications uid updates transformedTicket notifyTicketResolved notifyTicketAssigned =
     (case (if get (status_p updates) = Some ''resolved''
            then notifyTicketResolved transformedTicket uid else None) of
        Some e \<Rightarrow> Some e
      | None \<Rightarrow>
          (case get (assignedTo_p updates) of
             None \<Rightarrow> None
           | Some a \<Rightarrow>
               (if truthyString (Some a) \<and> a \<noteq> createdBy transformedTicket
                then notifyTicketAssigned transformedTicket a uid else None)))"

definition updateTicket ::
  "string option \<Rightarrow> instant \<Rightarrow> string \<Rightarrow> partialTicket \<Rightarrow>
   (string \<Rightarrow> partialTicket \<Rightarrow> ticket response) \<Rightarrow>
   (ticket \<Rightarrow> string \<Rightarrow> exn option) \<Rightarrow> (ticket \<Rightarrow> string \<Rightarrow> string \<Rightarrow> exn option) \<Rightarrow>
   store \<Rightarrow> (exn + ticket) \<times> store"
where
  "updateTicket user now ticketId updates db_updateTicket notifyTicketResolved notifyTicketAssigned s =
     (case user of
        None \<Rightarrow> (Inl (Error ''User not authenticated''), s)
      | Some uid \<Rightarrow>
          (case updatedOrThrown (db_updateTicket ticketId (dbUpdates uid now updates)) of
             Inl e \<Rightarrow> (Inl e, toast ''Failed to update ticket'' (consoleLog (message e) s))
           | Inr transformedTicket \<Rightarrow>
               (let s1 = setTickets (map (\<lambda>t. if id' t = ticketId then transformedTicket else t)) s;
                    s2 = (case updateNotifications uid updates transformedTicket
                                 notifyTicketResolved notifyTicketAssigned of
                            Some notificationError \<Rightarrow>
                              consoleLog ''Failed to send ticket update notifications:'' s1
                          | None \<Rightarrow> s1)
                in (Inr transformedTicket, toast ''Ticket updated'' s2))))"

subsection \<open>\<^verbatim>\<open>deleteTicket\<close>\<close>

text \<open>
  The inner \<^verbatim>\<open>catch\<close> of \<^verbatim>\<open>deleteTicket\<close> writes the error to the console and does
  not throw it again, so the statements after it run whatever the gateway answered.
\<close>

definition deleteTicket ::
  "string option \<Rightarrow> string \<Rightarrow> (string \<Rightarrow> unit response) \<Rightarrow> store \<Rightarrow> (exn + unit) \<times> store"
where
  "deleteTicket user ticketId db_deleteTicket s =
     (case user of
        None \<Rightarrow> (Inl (Error ''User not authenticated''), s)
      | Some uid \<Rightarrow>
          (let s1 = (case db_deleteTicket ticketId of
                       Rejected e \<Rightarrow> consoleLog (message e) s
                     | Resolved data err \<Rightarrow>
                         (case err of Some e \<Rightarrow> consoleLog (message e) s | None \<Rightarrow> s));
               s2 = setTickets (filter (\<lambda>t. id' t \<noteq> ticketId)) s1
           in (Inr (), toast ''Ticket deleted'' s2)))"

subsection \<open>\<^verbatim>\<open>assignTicket\<close>\<close>

text \<open>The object literal that \<^verbatim>\<open>assignTicket\<close> hands to \<^verbatim>\<open>updateTicket\<close>.\<close>

definition assignUpdates :: "string option \<Rightarrow> instant \<Rightarrow> partialTicket" where
  "assignUpdates assignedTo' now =
     \<lparr>title_p = Absent, description_p = Absent, location_p = Absent, priority_p = Absent,
      status_p = Value (if truthyString assignedTo' then ''assigned'' else ''open''),
      assignedTo_p = (case assignedTo' of None \<Rightarrow> Null | Some a \<Rightarrow> Value a),
      assignedAt_p = (if truthyString assignedTo' then Value now else Undefined),
      resolvedAt_p = Absent, verifiedAt_p = Absent, verifiedBy_p = Absent, dueDate_p = Absent\<rparr>"

definition assignTicket ::
  "string option \<Rightarrow> instant \<Rightarrow> string \<Rightarrow> string option \<Rightarrow>
   (string \<Rightarrow> partialTicket \<Rightarrow> ticket response) \<Rightarrow>
   (ticket \<Rightarrow> string \<Rightarrow> exn option) \<Rightarrow> (ticket \<Rightarrow> string \<Rightarrow> string \<Rightarrow> exn option) \<Rightarrow>
   store \<Rightarrow> (exn + ticket) \<times> store"
where
  "assignTicket user now ticketId assignedTo' db_updateTicket notifyTicketResolved notifyTicketAssigned s =
     updateTicket user now ticketId (assignUpdates assignedTo' now)
       db_updateTicket notifyTicketResolved notifyTicketAssigned s"

subsection \<open>\<^verbatim>\<open>updateTicketStatus\<close>\<close>

definition updateTicketStatus ::
  "string option \<Rightarrow> instant \<Rightarrow> string \<Rightarrow> string \<Rightarrow>
   (string \<Rightarrow> partialTicket \<Rightarrow> ticket response) \<Rightarrow>
   (ticket \<Rightarrow> string \<Rightarrow> exn option) \<Rightarrow> (ticket \<Rightarrow> string \<Rightarrow> string \<Rightarrow> exn option) \<Rightarrow>
   store \<Rightarrow> (exn + ticket) \<times> store"
where
  "updateTicketStatus user now ticketId status' db_updateTicket notifyTicketResolved notifyTicketAssigned s =
     updateTicket user now ticketId
       \<lparr>title_p = Absent, description_p = Absent, location_p = Absent, priority_p = Absent,
        status_p = Value status', assignedTo_p = Absent, assignedAt_p = Absent,
        resolvedAt_p = Absent, verifiedAt_p = Absent, verifiedBy_p = Absent, dueDate_p = Absent\<rparr>
       db_updateTicket notifyTicketResolved notifyTicketAssigned s"

subsection \<open>\<^verbatim>\<open>getOverdueTickets\<close>\<close>

text \<open>\<^verbatim>\<open>[ 'resolved', 'verified', 'closed' ].includes( status )\<close> is list membership.\<close>

definition getOverdueTickets :: "instant \<Rightarrow> store \<Rightarrow> ticket list" where
  "getOverdueTickets now s =
     filter (\<lambda>ticket.
        (case dueDate ticket of
           None \<Rightarrow> False
         | Some d \<Rightarrow> d < now \<and> status ticket \<notin> set [''resolved'', ''verified'', ''closed'']))
       (tickets s)"

section \<open>The page \<^verbatim>\<open>TicketsPage\<close>\<close>

text \<open>
  The session is \<open>user\<close>, the id of the signed-in user (\<^verbatim>\<open>user?.id\<close>), and \<open>profile\<close>,
  the role of the profile (\<^verbatim>\<open>profile?.role\<close>); either may be missing.
\<close>

definition canViewAllTickets :: "string option \<Rightarrow> bool" where
  "canViewAllTickets profile = (profile = Some ''admin'' \<or> profile = Some ''supervisor'')"

text \<open>
  The visibility step, which \<^verbatim>\<open>getFilteredTickets\<close> and \<^verbatim>\<open>getTicketCounts\<close> both
  begin with. \<^verbatim>\<open>ticket.assignedTo === user?.id\<close> holds of a ticket without assignee
  when there is no user.
\<close>

definition userTickets :: "string option \<Rightarrow> string option \<Rightarrow> ticket list \<Rightarrow> ticket list" where
  "userTickets user profile tickets' =
     (if canViewAllTickets profile then tickets'
      else filter (\<lambda>ticket. Some (createdBy ticket) = user \<or> assignedTo ticket = user) tickets')"

text \<open>\<^verbatim>\<open>toLowerCase\<close> on the ASCII letters, and \<^verbatim>\<open>includes\<close> on strings.\<close>

definition lowerChar :: "char \<Rightarrow> char" where
  "lowerChar c =
     (if 65 \<le> (of_char c :: nat) \<and> (of_char c :: nat) \<le> 90
      then char_of ((of_char c :: nat) + 32) else c)"

definition toLowerCase :: "string \<Rightarrow> string" where
  "toLowerCase s = map lowerChar s"

fun includes_str :: "string \<Rightarrow> string \<Rightarrow> bool" where
  "includes_str [] needle = (needle = [])"
| "includes_str (c # cs) needle = (take (length needle) (c # cs) = needle \<or> includes_str cs needle)"

definition matchesFilters :: "string \<Rightarrow> string \<Rightarrow> string \<Rightarrow> string \<Rightarrow> ticket \<Rightarrow> bool" where
  "matchesFilters searchTerm statusFilter priorityFilter assignedFilter ticket =
     (let matchesSearch =
            (includes_str (toLowerCase (title ticket)) (toLowerCase searchTerm) \<or>
             includes_str (toLowerCase (description ticket)) (toLowerCase searchTerm) \<or>
             includes_str (toLowerCase (location ticket)) (toLowerCase searchTerm));
          matchesStatus = (statusFilter = ''all'' \<or> status ticket = statusFilter);
          matchesPriority = (priorityFilter = ''all'' \<or> priority ticket = priorityFilter);
          matchesAssigned =
            (assignedFilter = ''all'' \<or>
             (assignedFilter = ''unassigned'' \<and> \<not> truthyString (assignedTo ticket)) \<or>
             assignedTo ticket = Some assignedFilter)
      in matchesSearch \<and> matchesStatus \<and> matchesPriority \<and> matchesAssigned)"

definition getFilteredTickets ::
  "string option \<Rightarrow> string option \<Rightarrow> string \<Rightarrow> string \<Rightarrow> string \<Rightarrow> string \<Rightarrow>
   ticket list \<Rightarrow> ticket list"
where
  "getFilteredTickets user profile searchTerm statusFilter priorityFilter assignedFilter tickets' =
     filter (matchesFilters searchTerm statusFilter priorityFilter assignedFilter)
       (userTickets user profile tickets')"

text \<open>
  \<^verbatim>\<open>Array.prototype.sort\<close> with a comparison function is stable: the result is ordered
  by the function and keeps the input order of the elements it rates equal. Insertion
  from the right, each element going in front of the first one it does not come after,
  is that sort.
\<close>

fun insertBy :: "('a \<Rightarrow> 'a \<Rightarrow> int) \<Rightarrow> 'a \<Rightarrow> 'a list \<Rightarrow> 'a list" where
  "insertBy cmp x [] = [x]"
| "insertBy cmp x (y # ys) = (if cmp x y \<le> 0 then x # y # ys else y # insertBy cmp x ys)"

fun arraySort :: "('a \<Rightarrow> 'a \<Rightarrow> int) \<Rightarrow> 'a list \<Rightarrow> 'a list" where
  "arraySort cmp [] = []"
| "arraySort cmp (x # xs) = insertBy cmp x (arraySort cmp xs)"

text \<open>\<^verbatim>\<open>priorityOrder[ p ] || 0\<close>.\<close>

definition priorityOrder :: "string \<Rightarrow> int" where
  "priorityOrder p =
     (if p = ''critical'' then 4 else if p = ''high'' then 3
      else if p = ''medium'' then 2 else if p = ''low'' then 1 else 0)"

definition compareTickets :: "string \<Rightarrow> ticket \<Rightarrow> ticket \<Rightarrow> int" where
  "compareTickets sortBy a b =
     (if sortBy = ''priority'' then priorityOrder (priority b) - priorityOrder (priority a)
      else if sortBy = ''updated'' then
        getTime (newDate (updatedAt b)) - getTime (newDate (updatedAt a))
      else if sortBy = ''due_date'' then
        (case (dueDate a, dueDate b) of
           (None, None) \<Rightarrow> 0
         | (None, Some db) \<Rightarrow> 1
         | (Some da, None) \<Rightarrow> - 1
         | (Some da, Some db) \<Rightarrow> getTime (newDate da) - getTime (newDate db))
      else getTime (newDate (createdAt b)) - getTime (newDate (createdAt a)))"

definition sortedTickets :: "string \<Rightarrow> ticket list \<Rightarrow> ticket list" where
  "sortedTickets sortBy filteredTickets = arraySort (compareTickets sortBy) filteredTickets"

record counts =
  all' :: nat
  assigned :: nat
  created :: nat
  unassigned :: nat
  overdue :: nat

definition getTicketCounts ::
  "string option \<Rightarrow> string option \<Rightarrow> instant \<Rightarrow> ticket list \<Rightarrow> counts"
where
  "getTicketCounts user profile now tickets' =
     (let allUserTickets = userTickets user profile tickets' in
      \<lparr>all' = length allUserTickets,
       assigned = length (filter (\<lambda>t. assignedTo t = user) allUserTickets),
       created = length (filter (\<lambda>t. Some (createdBy t) = user) allUserTickets),
       unassigned =
         (if canViewAllTickets profile
          then length (filter (\<lambda>t. \<not> truthyString (assignedTo t)) allUserTickets) else 0),
       overdue =
         length (filter (\<lambda>t.
           (case dueDate t of
              None \<Rightarrow> False
            | Some d \<Rightarrow> newDate d < now \<and>
                status t \<notin> set [''resolved'', ''verified'', ''closed'']))
           allUserTickets)\<rparr>)"

section \<open>Sample data\<close>

text \<open>
  A ticket of the engineer \<open>eng-2\<close>, created and last updated at instant 1000, with the
  given id, status, assignee and due date; a store that holds a given collection; the
  update \<^verbatim>\<open>{ status }\<close>; gateway calls that reject and that succeed; notification
  calls that succeed and that fail.
\<close>

definition sampleTicket :: "string \<Rightarrow> string \<Rightarrow> string option \<Rightarrow> instant option \<Rightarrow> ticket" where
  "sampleTicket i st a d =
     \<lparr>id' = i, title = ''Pump leak'', description = ''Leak at the intake'', location = ''Plant 2'',
      priority = ''high'', status = st, createdBy = ''eng-2'', assignedTo = a,
      createdAt = 1000, updatedAt = 1000, assignedAt = None, resolvedAt = None,
      verifiedAt = None, verifiedBy = None, dueDate = d\<rparr>"

definition sampleStore :: "ticket list \<Rightarrow> store" where
  "sampleStore ts = \<lparr>tickets = ts, loading = False, error = None, toasts = [], console = []\<rparr>"

definition statusUpdate :: "string \<Rightarrow> partialTicket" where
  "statusUpdate st =
     \<lparr>title_p = Absent, description_p = Absent, location_p = Absent, priority_p = Absent,
      status_p = Value st, assignedTo_p = Absent, assignedAt_p = Absent,
      resolvedAt_p = Absent, verifiedAt_p = Absent, verifiedBy_p = Absent, dueDate_p = Absent\<rparr>"

definition deleteRejected :: "string \<Rightarrow> unit response" where
  "deleteRejected i = Rejected (Error ''network down'')"

definition createRejected :: "string \<Rightarrow> partialTicket \<Rightarrow> ticket response" where
  "createRejected u d = Rejected (Error ''network down'')"

definition createAccepted :: "string \<Rightarrow> partialTicket \<Rightarrow> ticket response" where
  "createAccepted u d = Resolved (Some (sampleTicket ''t9'' ''open'' None None)) None"

definition fetchRejected :: "string \<Rightarrow> string \<Rightarrow> fetched" where
  "fetchRejected u r = FetchRejected (Error ''network down'')"

text \<open>
  Gateways for the examples: one that answers every update with the record \<open>r\<close>, and one
  that answers with \<open>r\<close> the updates whose fields pass the test \<open>ok\<close> and rejects the
  others; tests for the stamps among the fields written.
\<close>

definition updateAccepted :: "ticket \<Rightarrow> string \<Rightarrow> partialTicket \<Rightarrow> ticket response" where
  "updateAccepted r i f = Resolved (Some r) None"





definition resolvedDelivered :: "ticket \<Rightarrow> string \<Rightarrow> exn option" where
  "resolvedDelivered t actor = None"

definition assignedDelivered :: "ticket \<Rightarrow> string \<Rightarrow> string \<Rightarrow> exn option" where
  "assignedDelivered t assignee actor = None"

definition resolvedFails :: "ticket \<Rightarrow> string \<Rightarrow> exn option" where
  "resolvedFails t actor = Some (Error ''push service unavailable'')"

definition createdFails :: "ticket \<Rightarrow> exn option" where
  "createdFails t = Some (Error ''push service unavailable'')"

section \<open>Properties\<close>

lemma tickets_toast [simp]: "tickets (toast t s) = tickets s"
  by (simp add: toast_def)

lemma tickets_consoleLog [simp]: "tickets (consoleLog l s) = tickets s"
  by (simp add: consoleLog_def)

lemma tickets_setLoading [simp]: "tickets (setLoading b s) = tickets s"
  by (simp add: setLoading_def)

lemma tickets_setError [simp]: "tickets (setError e s) = tickets s"
  by (simp add: setError_def)

lemma tickets_setTickets [simp]: "tickets (setTickets f s) = f (tickets s)"
  by (simp add: setTickets_def)


lemma newDate_id [simp]: "newDate v = v"
  by (simp add: newDate_def)

lemma toISOString_id [simp]: "toISOString v = v"
  by (simp add: toISOString_def)

lemma transformUpdated_fields [simp]:
  "status (transformUpdated d) = status d"
  "id' (transformUpdated d) = id' d"
  "assignedTo (transformUpdated d) = assignedTo d"
  "assignedAt (transformUpdated d) = assignedAt d"
  "resolvedAt (transformUpdated d) = resolvedAt d"
  "updatedAt (transformUpdated d) = updatedAt d"
  by (simp_all add: transformUpdated_def Ticket_def split: option.splits)

lemmas sample_defs = sampleTicket_def sampleStore_def statusUpdate_def resolvedDelivered_def
  assignedDelivered_def resolvedFails_def createdFails_def createAccepted_def createRejected_def
  deleteRejected_def fetchRejected_def

lemmas update_defs = updateTicket_def updatedOrThrown_def updateNotifications_def dbUpdates_def
  transformUpdated_def Ticket_def Let_def

subsection \<open>Deleting\<close>

text \<open>
  Whatever the gateway answers, \<^verbatim>\<open>deleteTicket\<close> of a signed-in user fulfils and the
  collection loses the tickets with the id.
\<close>

lemma deleteTicket_any_answer:
  "fst (deleteTicket (Some uid) ticketId db s) = Inr () \<and>
   tickets (snd (deleteTicket (Some uid) ticketId db s)) =
     filter (\<lambda>t. id' t \<noteq> ticketId) (tickets s)"
  by (simp add: deleteTicket_def Let_def split: response.splits option.splits)

text \<open>
  C1. The ticket is to leave the collection only when the gateway deleted it, and a
  failure of the gateway is to reach the caller with the collection unchanged. The hook
  does otherwise: with the collection holding the ticket \<open>t1\<close> and the gateway rejecting
  the deletion, \<^verbatim>\<open>deleteTicket\<close> fulfils, the collection is empty, the notice says the
  ticket was deleted and the error is only on the console.
\<close>

theorem deleteTicket_after_gateway_failure:
  "deleteTicket (Some ''sup-1'') ''t1'' deleteRejected
     (sampleStore [sampleTicket ''t1'' ''open'' None None]) =
   (Inr (), \<lparr>tickets = [], loading = False, error = None,
              toasts = [''Ticket deleted''], console = [''network down'']\<rparr>)"
  by (simp add: deleteTicket_def sample_defs setTickets_def toast_def consoleLog_def)

subsection \<open>Visibility\<close>

text \<open>
  C2. For a session whose role is neither admin nor supervisor, a ticket that the user
  neither created nor is assigned to is absent from the filtered list, whatever the
  search term and the status, priority and assignment filters; for an admin or a
  supervisor the visibility step keeps the whole collection.
\<close>

theorem getFilteredTickets_visibility:
  "(profile \<noteq> Some ''admin'' \<and> profile \<noteq> Some ''supervisor'' \<and>
    user \<noteq> Some (createdBy t) \<and> user \<noteq> assignedTo t \<longrightarrow>
      t \<notin> set (getFilteredTickets user profile searchTerm statusFilter priorityFilter
                   assignedFilter tickets')) \<and>
   (profile = Some ''admin'' \<or> profile = Some ''supervisor'' \<longrightarrow>
      userTickets user profile tickets' = tickets')"
  by (auto simp: getFilteredTickets_def userTickets_def canViewAllTickets_def)

text \<open>
  The engineer \<open>eng-1\<close> does not see the ticket \<open>t1\<close> of \<open>eng-2\<close>; a supervisor keeps
  both tickets.
\<close>

theorem getFilteredTickets_visibility_witness:
  "Some ''field_engineer'' \<noteq> Some ''admin'' \<and> Some ''field_engineer'' \<noteq> Some ''supervisor'' \<and>
   Some ''eng-1'' \<noteq> Some (createdBy (sampleTicket ''t1'' ''open'' None None)) \<and>
   Some ''eng-1'' \<noteq> assignedTo (sampleTicket ''t1'' ''open'' None None) \<and>
   sampleTicket ''t1'' ''open'' None None \<notin>
     set (getFilteredTickets (Some ''eng-1'') (Some ''field_engineer'') [] ''all'' ''all'' ''all''
            [sampleTicket ''t1'' ''open'' None None, sampleTicket ''t2'' ''open'' (Some ''eng-1'') None]) \<and>
   userTickets (Some ''sup-1'') (Some ''supervisor'')
     [sampleTicket ''t1'' ''open'' None None, sampleTicket ''t2'' ''open'' (Some ''eng-1'') None] =
     [sampleTicket ''t1'' ''open'' None None, sampleTicket ''t2'' ''open'' (Some ''eng-1'') None]"
  using getFilteredTickets_visibility [of "Some ''field_engineer''" "Some ''eng-1''"
      "sampleTicket ''t1'' ''open'' None None" "[]" "''all''" "''all''" "''all''"
      "[sampleTicket ''t1'' ''open'' None None, sampleTicket ''t2'' ''open'' (Some ''eng-1'') None]"]
    getFilteredTickets_visibility [of "Some ''supervisor''" "Some ''sup-1''"
      "sampleTicket ''t1'' ''open'' None None" "[]" "''all''" "''all''" "''all''"
      "[sampleTicket ''t1'' ''open'' None None, sampleTicket ''t2'' ''open'' (Some ''eng-1'') None]"]
  by (simp add: sampleTicket_def)

subsection \<open>Creating\<close>

text \<open>
  C3. When the gateway's \<^verbatim>\<open>createTicket\<close> fails, by rejecting with \<open>e\<close> or by resolving
  with the error \<open>e\<close>, \<^verbatim>\<open>createTicket\<close> rejects with \<open>e\<close> and the collection is the one
  before the call, in length and in contents: no record was added.
\<close>

theorem createTicket_gateway_failure:
  "db uid ticketData = Rejected e \<or> db uid ticketData = Resolved data (Some e) \<Longrightarrow>
   fst (createTicket (Some uid) ticketData db notify s) = Inl e \<and>
   tickets (snd (createTicket (Some uid) ticketData db notify s)) = tickets s"
  by (auto simp: createTicket_def createdOrThrown_def)

text \<open>A rejected creation leaves the one ticket of the collection and rejects.\<close>

theorem createTicket_gateway_failure_witness:
  "fst (createTicket (Some ''eng-2'') (statusUpdate ''open'') createRejected createdFails
          (sampleStore [sampleTicket ''t1'' ''open'' None None])) = Inl (Error ''network down'') \<and>
   tickets (snd (createTicket (Some ''eng-2'') (statusUpdate ''open'') createRejected createdFails
          (sampleStore [sampleTicket ''t1'' ''open'' None None]))) =
     [sampleTicket ''t1'' ''open'' None None]"
  using createTicket_gateway_failure [of createRejected "''eng-2''"
      "statusUpdate ''open''" "Error ''network down''" None createdFails
      "sampleStore [sampleTicket ''t1'' ''open'' None None]"]
  by (simp add: sampleStore_def createRejected_def)

subsection \<open>Loading\<close>

text \<open>
  C4. When the fetch of the gateway fails, \<^verbatim>\<open>loadTickets\<close> fulfils, the collection is
  the one before the call and the error state holds a message. (The message is that of the
  \<^verbatim>\<open>TypeError\<close> raised by \<^verbatim>\<open>data.map\<close>, not the gateway's.)
\<close>

theorem loadTickets_fetch_failure:
  "db uid role = FetchRejected e \<Longrightarrow>
   fst (loadTickets (Some uid) (Some role) db s) = Inr () \<and>
   tickets (snd (loadTickets (Some uid) (Some role) db s)) = tickets s \<and>
   error (snd (loadTickets (Some uid) (Some role) db s)) \<noteq> None"
  by (simp add: loadTickets_def Let_def setLoading_def setError_def toast_def consoleLog_def)

text \<open>A rejected fetch leaves the one ticket loaded before.\<close>

theorem loadTickets_fetch_failure_witness:
  "fst (loadTickets (Some ''eng-2'') (Some ''field_engineer'') fetchRejected
          (sampleStore [sampleTicket ''t1'' ''open'' None None])) = Inr () \<and>
   tickets (snd (loadTickets (Some ''eng-2'') (Some ''field_engineer'') fetchRejected
          (sampleStore [sampleTicket ''t1'' ''open'' None None]))) =
     [sampleTicket ''t1'' ''open'' None None] \<and>
   error (snd (loadTickets (Some ''eng-2'') (Some ''field_engineer'') fetchRejected
          (sampleStore [sampleTicket ''t1'' ''open'' None None]))) \<noteq> None"
  using loadTickets_fetch_failure [of fetchRejected "''eng-2''"
      "''field_engineer''" "Error ''network down''" "sampleStore [sampleTicket ''t1'' ''open'' None None]"]
  by (simp add: sampleStore_def fetchRejected_def)

subsection \<open>Updating\<close>

text \<open>
  When the gateway answers with a record and no error, \<^verbatim>\<open>updateTicket\<close> fulfils with the
  transformed record and puts it in the place of every ticket with the id.
\<close>

lemma updateTicket_success:
  "db ticketId (dbUpdates uid now updates) = Resolved (Some d) None \<Longrightarrow>
   fst (updateTicket (Some uid) now ticketId updates db nr na s) = Inr (transformUpdated d) \<and>
   tickets (snd (updateTicket (Some uid) now ticketId updates db nr na s)) =
     map (\<lambda>t. if id' t = ticketId then transformUpdated d else t) (tickets s)"
  by (simp add: updateTicket_def updatedOrThrown_def Let_def split: option.splits)

text \<open>
  The one gateway call of \<^verbatim>\<open>updateTicket\<close> is for \<open>ticketId\<close> with the fields
  \<open>dbUpdates\<close>: whatever the gateway, the outcome is its answer to that call.
\<close>

lemma updateTicket_gateway_call:
  "fst (updateTicket (Some uid) now ticketId updates db nr na s) =
   updatedOrThrown (db ticketId (dbUpdates uid now updates))"
  by (simp add: updateTicket_def Let_def split: sum.splits)







text \<open>
  C10. When the gateway call of \<^verbatim>\<open>updateTicket\<close> succeeds, the collection keeps its
  length, every ticket whose id is not \<open>ticketId\<close> stays as it was and where it was, and
  when no ticket has the id the collection after the call is the collection before it:
  the updated record is not inserted.
\<close>

theorem updateTicket_frame:
  assumes "db ticketId (dbUpdates uid now updates) = Resolved (Some d) None"
  shows "length (tickets (snd (updateTicket (Some uid) now ticketId updates db nr na s))) = length (tickets s) \<and>
         (\<forall>i < length (tickets s). id' (tickets s ! i) \<noteq> ticketId \<longrightarrow>
            tickets (snd (updateTicket (Some uid) now ticketId updates db nr na s)) ! i = tickets s ! i) \<and>
         (ticketId \<notin> id' ` set (tickets s) \<longrightarrow>
            tickets (snd (updateTicket (Some uid) now ticketId updates db nr na s)) = tickets s)"
proof -
  have eq: "tickets (snd (updateTicket (Some uid) now ticketId updates db nr na s)) =
        map (\<lambda>t. if id' t = ticketId then transformUpdated d else t) (tickets s)"
    using assms updateTicket_success [where db = db and ticketId = ticketId and uid = uid and now = now
        and updates = updates and d = d]
    by simp
  have "ticketId \<notin> id' ` set xs \<longrightarrow>
          map (\<lambda>t. if id' t = ticketId then transformUpdated d else t) xs = xs" for xs
    by (induction xs) auto
  with eq show ?thesis by simp
qed

text \<open>
  Updating \<open>t1\<close> leaves \<open>t2\<close> in the first place of the collection; with \<open>t2\<close> alone in
  the collection, the update of \<open>t1\<close> leaves the collection as it was.
\<close>

theorem updateTicket_frame_witness:
  "tickets (snd (updateTicket (Some ''eng-2'') 5000 ''t1'' (statusUpdate ''in_progress'')
          (updateAccepted (sampleTicket ''t1'' ''in_progress'' None None))
          resolvedDelivered assignedDelivered
          (sampleStore [sampleTicket ''t2'' ''open'' None None, sampleTicket ''t1'' ''open'' None None]))) ! 0 =
     sampleTicket ''t2'' ''open'' None None \<and>
   tickets (snd (updateTicket (Some ''eng-2'') 5000 ''t1'' (statusUpdate ''in_progress'')
          (updateAccepted (sampleTicket ''t1'' ''in_progress'' None None))
          resolvedDelivered assignedDelivered
          (sampleStore [sampleTicket ''t2'' ''open'' None None]))) =
     [sampleTicket ''t2'' ''open'' None None]"
  using updateTicket_frame [where db = "updateAccepted (sampleTicket ''t1'' ''in_progress'' None None)"
      and ticketId = "''t1''" and uid = "''eng-2''" and now = 5000 and updates = "statusUpdate ''in_progress''"
      and d = "sampleTicket ''t1'' ''in_progress'' None None"
      and nr = resolvedDelivered and na = assignedDelivered
      and s = "sampleStore [sampleTicket ''t2'' ''open'' None None, sampleTicket ''t1'' ''open'' None None]"]
    updateTicket_frame [where db = "updateAccepted (sampleTicket ''t1'' ''in_progress'' None None)"
      and ticketId = "''t1''" and uid = "''eng-2''" and now = 5000 and updates = "statusUpdate ''in_progress''"
      and d = "sampleTicket ''t1'' ''in_progress'' None None"
      and nr = resolvedDelivered and na = assignedDelivered
      and s = "sampleStore [sampleTicket ''t2'' ''open'' None None]"]
  by (simp add: sampleStore_def sampleTicket_def updateAccepted_def)

subsection \<open>Notifications\<close>

text \<open>
  C9. When the gateway call of \<^verbatim>\<open>createTicket\<close> or of \<^verbatim>\<open>updateTicket\<close> succeeds and the
  notification that follows fails (\<^verbatim>\<open>notifyTicketCreated\<close>; \<^verbatim>\<open>notifyTicketResolved\<close> or
  \<^verbatim>\<open>notifyTicketAssigned\<close>), the operation fulfils with the ticket all the same and the
  collection holds the mutation: the created ticket in front, the updated ticket in its
  place.
\<close>

theorem notification_failure_keeps_mutation:
  "(db uid ticketData = Resolved (Some d) None \<and> notifyTicketCreated (transformCreated d) = Some e \<longrightarrow>
      fst (createTicket (Some uid) ticketData db notifyTicketCreated s) = Inr (transformCreated d) \<and>
      tickets (snd (createTicket (Some uid) ticketData db notifyTicketCreated s)) = transformCreated d # tickets s) \<and>
   (db' ticketId (dbUpdates uid now updates) = Resolved (Some d') None \<and>
    updateNotifications uid updates (transformUpdated d') notifyTicketResolved notifyTicketAssigned = Some e' \<longrightarrow>
      fst (updateTicket (Some uid) now ticketId updates db' notifyTicketResolved notifyTicketAssigned s) =
        Inr (transformUpdated d') \<and>
      tickets (snd (updateTicket (Some uid) now ticketId updates db' notifyTicketResolved notifyTicketAssigned s)) =
        map (\<lambda>t. if id' t = ticketId then transformUpdated d' else t) (tickets s))"
  by (simp add: createTicket_def createdOrThrown_def Let_def updateTicket_success)

text \<open>
  The notification service is down: the creation still returns the new ticket \<open>t9\<close> and
  puts it in front of \<open>t1\<close>, and the resolution of \<open>t1\<close> still returns and stores the
  resolved ticket.
\<close>

theorem notification_failure_keeps_mutation_witness:
  "fst (createTicket (Some ''eng-2'') (statusUpdate ''open'') createAccepted createdFails
          (sampleStore [sampleTicket ''t1'' ''open'' None None])) =
     Inr (transformCreated (sampleTicket ''t9'' ''open'' None None)) \<and>
   tickets (snd (createTicket (Some ''eng-2'') (statusUpdate ''open'') createAccepted createdFails
          (sampleStore [sampleTicket ''t1'' ''open'' None None]))) =
     [transformCreated (sampleTicket ''t9'' ''open'' None None), sampleTicket ''t1'' ''open'' None None] \<and>
   fst (updateTicket (Some ''eng-2'') 5000 ''t1'' (statusUpdate ''resolved'')
          (updateAccepted
             ((sampleTicket ''t1'' ''resolved'' None None)\<lparr>resolvedAt := Some 5000, updatedAt := 5000\<rparr>))
          resolvedFails assignedDelivered (sampleStore [sampleTicket ''t1'' ''in_progress'' None None])) =
     Inr ((sampleTicket ''t1'' ''resolved'' None None)\<lparr>resolvedAt := Some 5000, updatedAt := 5000\<rparr>) \<and>
   tickets (snd (updateTicket (Some ''eng-2'') 5000 ''t1'' (statusUpdate ''resolved'')
          (updateAccepted
             ((sampleTicket ''t1'' ''resolved'' None None)\<lparr>resolvedAt := Some 5000, updatedAt := 5000\<rparr>))
          resolvedFails assignedDelivered (sampleStore [sampleTicket ''t1'' ''in_progress'' None None]))) =
     [(sampleTicket ''t1'' ''resolved'' None None)\<lparr>resolvedAt := Some 5000, updatedAt := 5000\<rparr>]"
  using notification_failure_keeps_mutation [where db = createAccepted and uid = "''eng-2''"
      and ticketData = "statusUpdate ''open''" and d = "sampleTicket ''t9'' ''open'' None None"
      and notifyTicketCreated = createdFails and e = "Error ''push service unavailable''"
      and s = "sampleStore [sampleTicket ''t1'' ''open'' None None]"]
    notification_failure_keeps_mutation [where
      db' = "updateAccepted
               ((sampleTicket ''t1'' ''resolved'' None None)\<lparr>resolvedAt := Some 5000, updatedAt := 5000\<rparr>)"
      and ticketId = "''t1''" and uid = "''eng-2''" and now = 5000 and updates = "statusUpdate ''resolved''"
      and d' = "(sampleTicket ''t1'' ''resolved'' None None)\<lparr>resolvedAt := Some 5000, updatedAt := 5000\<rparr>"
      and notifyTicketResolved = resolvedFails and notifyTicketAssigned = assignedDelivered
      and e' = "Error ''push service unavailable''"
      and s = "sampleStore [sampleTicket ''t1'' ''in_progress'' None None]"]
  by (simp add: sample_defs update_defs updateAccepted_def toISOString_def newDate_def)

subsection \<open>Assigning\<close>

text \<open>
  What \<^verbatim>\<open>assignTicket\<close> writes. For an assignee id that is not the empty string: the
  status \<open>assigned\<close>, the assignee and the time of the call as \<open>assignedAt\<close>. For
  \<^verbatim>\<open>null\<close>: the status \<open>open\<close>, the assignee \<^verbatim>\<open>null\<close> and \<open>assignedAt\<close> as
  \<^verbatim>\<open>undefined\<close>. For the empty string, which the hook's test of the assignee takes for
  none: the status \<open>open\<close>, the empty assignee and \<open>assignedAt\<close> as \<^verbatim>\<open>undefined\<close>. The
  record \<^verbatim>\<open>assignTicket\<close> returns is the one the gateway answers with.
\<close>

lemma assignTicket_writes:
  "fst (assignTicket (Some uid) now ticketId assignedTo' db nr na s) =
   updatedOrThrown (db ticketId (dbUpdates uid now (assignUpdates assignedTo' now)))"
  by (simp add: assignTicket_def updateTicket_gateway_call)

lemma assign_sent:
  "a \<noteq> [] \<Longrightarrow>
   status_p (dbUpdates uid now (assignUpdates (Some a) now)) = Value ''assigned'' \<and>
   assignedTo_p (dbUpdates uid now (assignUpdates (Some a) now)) = Value a \<and>
   assignedAt_p (dbUpdates uid now (assignUpdates (Some a) now)) = Value now"
  by (simp add: dbUpdates_def assignUpdates_def Let_def)

lemma unassign_sent:
  "status_p (dbUpdates uid now (assignUpdates None now)) = Value ''open'' \<and>
   assignedTo_p (dbUpdates uid now (assignUpdates None now)) = Null \<and>
   assignedAt_p (dbUpdates uid now (assignUpdates None now)) = Undefined"
  by (simp add: dbUpdates_def assignUpdates_def Let_def)

lemma assign_empty_sent:
  "status_p (dbUpdates uid now (assignUpdates (Some []) now)) = Value ''open'' \<and>
   assignedTo_p (dbUpdates uid now (assignUpdates (Some []) now)) = Value [] \<and>
   assignedAt_p (dbUpdates uid now (assignUpdates (Some []) now)) = Undefined"
  by (simp add: dbUpdates_def assignUpdates_def Let_def)

subsection \<open>Sorting by due date\<close>

lemma mset_insertBy: "mset (insertBy cmp x xs) = add_mset x (mset xs)"
  by (induction xs) auto

lemma mset_arraySort: "mset (arraySort cmp xs) = mset xs"
  by (induction xs) (auto simp: mset_insertBy)

lemma set_insertBy: "set (insertBy cmp x xs) = insert x (set xs)"
  by (induction xs) auto

lemma sorted_insertBy:
  assumes trans: "\<And>a b c. cmp a b \<le> 0 \<Longrightarrow> cmp b c \<le> 0 \<Longrightarrow> cmp a c \<le> 0"
    and total: "\<And>a b. 0 < cmp a b \<Longrightarrow> cmp b a \<le> 0"
  shows "sorted_wrt (\<lambda>a b. cmp a b \<le> 0) xs \<Longrightarrow> sorted_wrt (\<lambda>a b. cmp a b \<le> 0) (insertBy cmp x xs)"
proof (induction xs)
  case Nil
  then show ?case by simp
next
  case (Cons y ys)
  show ?case
  proof (cases "cmp x y \<le> 0")
    case True
    with Cons.prems show ?thesis by (auto intro: trans)
  next
    case False
    then have "cmp y x \<le> 0" using total [of x y] by simp
    with False Cons show ?thesis by (auto simp: set_insertBy)
  qed
qed

lemma sorted_arraySort:
  assumes trans: "\<And>a b c. cmp a b \<le> 0 \<Longrightarrow> cmp b c \<le> 0 \<Longrightarrow> cmp a c \<le> 0"
    and total: "\<And>a b. 0 < cmp a b \<Longrightarrow> cmp b a \<le> 0"
  shows "sorted_wrt (\<lambda>a b. cmp a b \<le> 0) (arraySort cmp xs)"
  by (induction xs) (auto intro: sorted_insertBy trans total)

lemma compare_due_date:
  "(compareTickets ''due_date'' a b \<le> 0) =
   (case dueDate a of None \<Rightarrow> dueDate b = None
    | Some x \<Rightarrow> (case dueDate b of None \<Rightarrow> True | Some y \<Rightarrow> x \<le> y))"
  by (simp add: compareTickets_def getTime_def newDate_def split: option.splits)

lemma compare_due_date_pos:
  "(0 < compareTickets ''due_date'' a b) =
   (case dueDate a of None \<Rightarrow> dueDate b \<noteq> None
    | Some x \<Rightarrow> (case dueDate b of None \<Rightarrow> False | Some y \<Rightarrow> y < x))"
  by (simp add: compareTickets_def getTime_def newDate_def split: option.splits)
text \<open>
  C7. Sorting by due date permutes the tickets and orders them so that a ticket without
  due date has only tickets without due date after it, and a ticket with a due date has
  after it only tickets without one or with a due date that is not earlier. The due dates
  2024-03-01, none, 2024-01-01 come out as 2024-01-01, 2024-03-01, none.
\<close>

theorem sortedTickets_due_date:
  "mset (sortedTickets ''due_date'' ts) = mset ts \<and>
   sorted_wrt (\<lambda>a b. case dueDate a of None \<Rightarrow> dueDate b = None
                      | Some x \<Rightarrow> (case dueDate b of None \<Rightarrow> True | Some y \<Rightarrow> x \<le> y))
     (sortedTickets ''due_date'' ts) \<and>
   sortedTickets ''due_date''
     [a\<lparr>dueDate := Some 1709251200000\<rparr>, b\<lparr>dueDate := None\<rparr>, c\<lparr>dueDate := Some 1704067200000\<rparr>] =
     [c\<lparr>dueDate := Some 1704067200000\<rparr>, a\<lparr>dueDate := Some 1709251200000\<rparr>, b\<lparr>dueDate := None\<rparr>]"
proof (intro conjI)
  show "mset (sortedTickets ''due_date'' ts) = mset ts"
    by (simp add: sortedTickets_def mset_arraySort)
  have "sorted_wrt (\<lambda>a b. compareTickets ''due_date'' a b \<le> 0)
          (arraySort (compareTickets ''due_date'') ts)"
  proof (rule sorted_arraySort)
    fix a b c
    assume "compareTickets ''due_date'' a b \<le> 0" and "compareTickets ''due_date'' b c \<le> 0"
    then show "compareTickets ''due_date'' a c \<le> 0"
      by (auto simp: compare_due_date split: option.splits)
  next
    fix a b
    assume "0 < compareTickets ''due_date'' a b"
    then show "compareTickets ''due_date'' b a \<le> 0"
      by (auto simp: compare_due_date compare_due_date_pos split: option.splits)
  qed
  then show "sorted_wrt (\<lambda>a b. case dueDate a of None \<Rightarrow> dueDate b = None
                      | Some x \<Rightarrow> (case dueDate b of None \<Rightarrow> True | Some y \<Rightarrow> x \<le> y))
     (sortedTickets ''due_date'' ts)"
    by (simp add: sortedTickets_def compare_due_date)
  show "sortedTickets ''due_date''
     [a\<lparr>dueDate := Some 1709251200000\<rparr>, b\<lparr>dueDate := None\<rparr>, c\<lparr>dueDate := Some 1704067200000\<rparr>] =
     [c\<lparr>dueDate := Some 1704067200000\<rparr>, a\<lparr>dueDate := Some 1709251200000\<rparr>, b\<lparr>dueDate := None\<rparr>]"
    by (simp add: sortedTickets_def compareTickets_def getTime_def newDate_def)
qed
text \<open>The three due dates of the example on sample tickets.\<close>

theorem sortedTickets_due_date_witness:
  "sortedTickets ''due_date''
     [sampleTicket ''a'' ''open'' None (Some 1709251200000), sampleTicket ''b'' ''open'' None None,
      sampleTicket ''c'' ''open'' None (Some 1704067200000)] =
     [sampleTicket ''c'' ''open'' None (Some 1704067200000),
      sampleTicket ''a'' ''open'' None (Some 1709251200000), sampleTicket ''b'' ''open'' None None]"
  using sortedTickets_due_date [of "[]" "sampleTicket ''a'' ''open'' None None"
      "sampleTicket ''b'' ''open'' None None" "sampleTicket ''c'' ''open'' None None"]
  by (simp add: sampleTicket_def)
subsection \<open>Overdue tickets\<close>

lemma overdue_pred:
  "(case dueDate t of None \<Rightarrow> False
    | Some d \<Rightarrow> newDate d < now \<and> status t \<notin> set [''resolved'', ''verified'', ''closed'']) =
   ((\<exists>d. dueDate t = Some d \<and> d < now) \<and>
    status t \<noteq> ''resolved'' \<and> status t \<noteq> ''verified'' \<and> status t \<noteq> ''closed'')"
  by (simp add: newDate_def split: option.splits)

lemma overdue_count_eq:
  "overdue (getTicketCounts user profile now ts) =
     length (filter (\<lambda>t. (\<exists>d. dueDate t = Some d \<and> d < now) \<and>
                          status t \<noteq> ''resolved'' \<and> status t \<noteq> ''verified'' \<and> status t \<noteq> ''closed'')
               (userTickets user profile ts))"
  by (simp only: getTicketCounts_def Let_def overdue_pred counts.simps)

lemma getOverdueTickets_eq:
  "getOverdueTickets now s =
     filter (\<lambda>t. (\<exists>d. dueDate t = Some d \<and> d < now) \<and>
                 status t \<noteq> ''resolved'' \<and> status t \<noteq> ''verified'' \<and> status t \<noteq> ''closed'')
       (tickets s)"
  by (simp only: getOverdueTickets_def overdue_pred [unfolded newDate_def])
text \<open>
  C8. The overdue count of the page is the number of tickets of the visibility-scoped
  collection with a due date strictly before the time of evaluation and a status other
  than \<open>resolved\<close>, \<open>verified\<close> and \<open>closed\<close>, and \<^verbatim>\<open>getOverdueTickets\<close> returns
  exactly the tickets of the collection of that kind. Of three tickets past their due
  date with the statuses \<open>open\<close>, \<open>resolved\<close> and \<open>in_progress\<close>, the first and the last
  are overdue, and an admin counts two.
\<close>

theorem overdue_counts:
  "overdue (getTicketCounts user profile now ts) =
     length (filter (\<lambda>t. (\<exists>d. dueDate t = Some d \<and> d < now) \<and>
                          status t \<noteq> ''resolved'' \<and> status t \<noteq> ''verified'' \<and> status t \<noteq> ''closed'')
               (userTickets user profile ts)) \<and>
   getOverdueTickets now s =
     filter (\<lambda>t. (\<exists>d. dueDate t = Some d \<and> d < now) \<and>
                 status t \<noteq> ''resolved'' \<and> status t \<noteq> ''verified'' \<and> status t \<noteq> ''closed'')
       (tickets s) \<and>
   (d1 < now \<and> d2 < now \<and> d3 < now \<longrightarrow>
      getOverdueTickets now
        (s\<lparr>tickets := [a\<lparr>dueDate := Some d1, status := ''open''\<rparr>,
                       b\<lparr>dueDate := Some d2, status := ''resolved''\<rparr>,
                       c\<lparr>dueDate := Some d3, status := ''in_progress''\<rparr>]\<rparr>) =
        [a\<lparr>dueDate := Some d1, status := ''open''\<rparr>, c\<lparr>dueDate := Some d3, status := ''in_progress''\<rparr>] \<and>
      overdue (getTicketCounts user (Some ''admin'') now
                 [a\<lparr>dueDate := Some d1, status := ''open''\<rparr>,
                  b\<lparr>dueDate := Some d2, status := ''resolved''\<rparr>,
                  c\<lparr>dueDate := Some d3, status := ''in_progress''\<rparr>]) = 2)"
proof (intro conjI impI)
  show "overdue (getTicketCounts user profile now ts) =
     length (filter (\<lambda>t. (\<exists>d. dueDate t = Some d \<and> d < now) \<and>
                          status t \<noteq> ''resolved'' \<and> status t \<noteq> ''verified'' \<and> status t \<noteq> ''closed'')
               (userTickets user profile ts))"
    by (rule overdue_count_eq)
  show "getOverdueTickets now s =
     filter (\<lambda>t. (\<exists>d. dueDate t = Some d \<and> d < now) \<and>
                 status t \<noteq> ''resolved'' \<and> status t \<noteq> ''verified'' \<and> status t \<noteq> ''closed'')
       (tickets s)"
    by (rule getOverdueTickets_eq)
next
  assume "d1 < now \<and> d2 < now \<and> d3 < now"
  then show "getOverdueTickets now
        (s\<lparr>tickets := [a\<lparr>dueDate := Some d1, status := ''open''\<rparr>,
                       b\<lparr>dueDate := Some d2, status := ''resolved''\<rparr>,
                       c\<lparr>dueDate := Some d3, status := ''in_progress''\<rparr>]\<rparr>) =
        [a\<lparr>dueDate := Some d1, status := ''open''\<rparr>, c\<lparr>dueDate := Some d3, status := ''in_progress''\<rparr>]"
    by (simp add: getOverdueTickets_eq)
next
  assume "d1 < now \<and> d2 < now \<and> d3 < now"
  then show "overdue (getTicketCounts user (Some ''admin'') now
                 [a\<lparr>dueDate := Some d1, status := ''open''\<rparr>,
                  b\<lparr>dueDate := Some d2, status := ''resolved''\<rparr>,
                  c\<lparr>dueDate := Some d3, status := ''in_progress''\<rparr>]) = 2"
    by (simp add: overdue_count_eq userTickets_def canViewAllTickets_def)
qed
text \<open>Three tickets due at 1500, evaluated at 2000.\<close>

theorem overdue_counts_witness:
  "getOverdueTickets 2000
     (sampleStore [sampleTicket ''a'' ''open'' None (Some 1500), sampleTicket ''b'' ''resolved'' None (Some 1500),
                   sampleTicket ''c'' ''in_progress'' None (Some 1500)]) =
     [sampleTicket ''a'' ''open'' None (Some 1500), sampleTicket ''c'' ''in_progress'' None (Some 1500)] \<and>
   overdue (getTicketCounts (Some ''adm-1'') (Some ''admin'') 2000
     [sampleTicket ''a'' ''open'' None (Some 1500), sampleTicket ''b'' ''resolved'' None (Some 1500),
      sampleTicket ''c'' ''in_progress'' None (Some 1500)]) = 2"
  using overdue_counts [where now = 2000 and ?d1.0 = 1500 and ?d2.0 = 1500 and ?d3.0 = 1500
      and a = "sampleTicket ''a'' ''open'' None None" and b = "sampleTicket ''b'' ''open'' None None"
      and c = "sampleTicket ''c'' ''open'' None None" and s = "sampleStore []"
      and user = "Some ''adm-1''" and profile = "Some ''admin''" and ts = "[]"]
  by (simp add: sampleTicket_def sampleStore_def)
end
